theory Spec2Isabelle
  imports Main "HOL-Library.Sublist"
begin

section \<open>The mock SDK of \<^verbatim>\<open>src/Home/main.py\<close>\<close>

text \<open>
  The script mocks a generative-AI client. Every function prints to standard output, so
  the model threads the text written so far (\<open>out\<close>) through each call. Python
  dictionaries are maps, a Python exception is a value of \<open>error\<close>, and an optional
  argument that defaults to \<^verbatim>\<open>None\<close> is an \<open>option\<close>.

  Strings come in two views. In \<open>generate_content\<close> and the two services a string is a
  list of 8-bit characters (every string literal of the script is ASCII) and standard
  output accepts whatever is printed: these definitions say which value a call returns.
  In \<open>generate_content_io\<close> a string is the list of its code points and standard output
  has an encoding, so that a \<^verbatim>\<open>print\<close> can raise: this definition says when a call
  returns at all.
\<close>

subsection \<open>Data\<close>

text \<open>\<^verbatim>\<open>class MockTool\<close>: one attribute, the tool's name.\<close>

record MockTool =
  name :: string

text \<open>
  \<^verbatim>\<open>class MockConfig\<close>: \<^verbatim>\<open>tools: Optional[List[MockTool]] = None\<close>, stored as given.
\<close>

record 'c MockConfig =
  system_instruction :: "'c list"
  tools :: "MockTool list option"

text \<open>
  \<^verbatim>\<open>class MockClient\<close>: its constructor stores nothing (the API key is dropped), so an
  instance has no attributes.
\<close>

datatype MockClient = MockClient

text \<open>The exceptions that subscripting and key lookup can raise.\<close>

datatype error = TypeError | IndexError | KeyError string | UnicodeEncodeError

text \<open>
  The values held by the response dictionaries: a string (under \<^verbatim>\<open>"text"\<close>) or a list of
  citation dictionaries (under \<^verbatim>\<open>"sources"\<close>), each of them a dictionary from strings
  to strings.
\<close>

type_synonym source = "string \<rightharpoonup> string"

datatype pyval = Str string | SourceList "source list"

type_synonym response = "string \<rightharpoonup> pyval"

subsection \<open>Python primitives used by the script\<close>

text \<open>
  \<^verbatim>\<open>print(s)\<close> appends the line and a newline to standard output, here a stream that
  accepts every character (\<open>print_io\<close> below is \<^verbatim>\<open>print\<close> on a stream with an encoding).
\<close>

definition print_line :: "string \<Rightarrow> string \<Rightarrow> string" where
  "print_line s out = out @ s @ ''\<newline>''"

text \<open>Truth value of an optional list: \<^verbatim>\<open>None\<close> and \<^verbatim>\<open>[]\<close> are false.\<close>

definition truthy :: "'a list option \<Rightarrow> bool" where
  "truthy t = (case t of None \<Rightarrow> False | Some xs \<Rightarrow> xs \<noteq> [])"

text \<open>
  \<^verbatim>\<open>t[0]\<close>: a \<^verbatim>\<open>TypeError\<close> on \<^verbatim>\<open>None\<close>, an \<^verbatim>\<open>IndexError\<close> on the empty list.
\<close>

definition subscript0 :: "'a list option \<Rightarrow> error + 'a" where
  "subscript0 t =
     (case t of
        None \<Rightarrow> Inl TypeError
      | Some [] \<Rightarrow> Inl IndexError
      | Some (x # _) \<Rightarrow> Inr x)"

text \<open>\<^verbatim>\<open>d[k]\<close> raises \<^verbatim>\<open>KeyError\<close> on a missing key; \<^verbatim>\<open>d.get(k, default)\<close> does not.\<close>

definition getitem :: "(string \<rightharpoonup> 'v) \<Rightarrow> string \<Rightarrow> error + 'v" where
  "getitem d k = (case d k of None \<Rightarrow> Inl (KeyError k) | Some v \<Rightarrow> Inr v)"

definition dict_get :: "(string \<rightharpoonup> 'v) \<Rightarrow> string \<Rightarrow> 'v \<Rightarrow> 'v" where
  "dict_get d k dflt = (case d k of None \<Rightarrow> dflt | Some v \<Rightarrow> v)"

subsection \<open>\<^verbatim>\<open>MockClient\<close>\<close>

text \<open>\<^verbatim>\<open>MockClient.__init__\<close> prints a banner and ignores the key.\<close>

definition MockClient_init :: "string option \<Rightarrow> string \<Rightarrow> MockClient \<times> string" where
  "MockClient_init api_key out =
     (MockClient, print_line ''--- Initializing Mock Gemini Client ---'' out)"

text \<open>
  The branch condition of \<^verbatim>\<open>generate_content\<close> (line 48),
  \<^verbatim>\<open>config.tools and config.tools[0].name == "google_search"\<close>: the conjunction is
  short-circuit, so the subscript is evaluated only when \<^verbatim>\<open>config.tools\<close> is true.
\<close>

definition tools_condition :: "'c MockConfig \<Rightarrow> error + bool" where
  "tools_condition config =
     (if \<not> truthy (tools config) then Inr False
      else (case subscript0 (tools config) of
              Inl e \<Rightarrow> Inl e
            | Inr t \<Rightarrow> Inr (name t = ''google_search'')))"

text \<open>The two canned responses (lines 50--68 and 71--78).\<close>

definition grounded_text :: string where
  "grounded_text =
     ''FSRPWL (Florida State Roleplay Whitelisted) is a highly structured '' @
     ''roleplay community focused on the **Emergency Response: Liberty County** game on Roblox. '' @
     ''We emphasize maturity, realism, and adherence to realistic procedures. '' @
     ''Here is a table of our core departments:\<newline>\<newline>'' @
     ''| Department | Primary Focus |\<newline>'' @
     ''|---|---|\<newline>'' @
     ''| FHP | Interstate enforcement & traffic |\<newline>'' @
     ''| Sheriff's Office | Patrol, investigations, community policing |\<newline>'' @
     ''| Fire & Rescue | Medical, fire suppression, technical rescue |\<newline>'' @
     ''| Communications | Call taking & unit coordination |\<newline>\<newline>'' @
     ''If you'd like to dive deeper into any department, just ask!''"

definition grounded_sources :: "source list" where
  "grounded_sources =
     [[''title'' \<mapsto> ''FSRPWL Community Guidelines'', ''uri'' \<mapsto> ''https://example.com/fsrpwl-rules''],
      [''title'' \<mapsto> ''Roblox ER:LC Wiki'', ''uri'' \<mapsto> ''https://example.com/erlc-wiki'']]"

definition grounded_payload :: response where
  "grounded_payload =
     [''text'' \<mapsto> Str grounded_text, ''sources'' \<mapsto> SourceList grounded_sources]"

definition creative_text :: string where
  "creative_text =
     ''**Scenario: Armed Robbery in Progress.** You are a Sheriff's Office deputy responding to a 211 (Armed Robbery) at the County Bank branch. '' @
     ''Dispatch reports two suspects inside with handguns. Multiple 911 calls confirm that hostages have been taken. '' @
     ''Your primary directive is to establish a secure perimeter, contain the suspects, and coordinate with specialized units (SWAT) as they arrive on scene. **Do not engage alone.** Your decisions on prioritizing life safety vs. containment are crucial.''"

definition creative_payload :: response where
  "creative_payload = [''text'' \<mapsto> Str creative_text, ''sources'' \<mapsto> SourceList []]"

text \<open>
  \<^verbatim>\<open>MockClient.generate_content(self, model, contents, config)\<close>: three trace lines (the
  system instruction cut to its first 50 characters), then the branch. The result is
  the returned dictionary, or the exception raised, and the new standard output.
\<close>

definition generate_content ::
  "MockClient \<Rightarrow> string \<Rightarrow> string \<Rightarrow> char MockConfig \<Rightarrow> string \<Rightarrow> (error + response) \<times> string" where
  "generate_content self model contents config out =
     (let out1 = print_line (''\<newline>[MOCK API CALL] Model: '' @ model) out;
          out2 = print_line
                   (''[MOCK API CALL] Query: '' @ [CHR 0x27] @ contents @ [CHR 0x27]) out1;
          out3 = print_line
                   (''[MOCK API CALL] System Instruction: '' @ [CHR 0x27] @
                    take 50 (system_instruction config) @ ''...'' @ [CHR 0x27]) out2
      in (case tools_condition config of
            Inl e \<Rightarrow> (Inl e, out3)
          | Inr b \<Rightarrow> (if b then (Inr grounded_payload, out3)
                     else (Inr creative_payload, out3))))"

subsection \<open>Standard output with an encoding\<close>

text \<open>
  \<^verbatim>\<open>print\<close> writes through the text encoding of standard output, and raises
  \<^verbatim>\<open>UnicodeEncodeError\<close> on a character that the encoding cannot encode. To say when
  \<^verbatim>\<open>generate_content\<close> returns at all, a Python string is taken here as the list of its
  code points, and the stream as the predicate \<open>enc\<close> of the code points it can encode.
  \<open>codepoints\<close> reads a literal of the script as such a string.
\<close>

type_synonym pystr = "nat list"

definition codepoints :: "string \<Rightarrow> pystr" where
  "codepoints s = map of_char s"

text \<open>
  UTF-8 (the default) encodes every code point but the surrogates; ASCII encodes the
  code points below 128.
\<close>

definition utf_8_codec :: "nat \<Rightarrow> bool" where
  "utf_8_codec c = (c < 0xD800 \<or> (0xDFFF < c \<and> c \<le> 0x10FFFF))"

definition ascii_codec :: "nat \<Rightarrow> bool" where
  "ascii_codec c = (c < 128)"

text \<open>
  \<^verbatim>\<open>sys.stdout.write(s)\<close> encodes the whole of \<open>s\<close> before it writes any of it. The result
  is the exception raised, if any, and the new standard output.
\<close>

definition write_io :: "(nat \<Rightarrow> bool) \<Rightarrow> pystr \<Rightarrow> pystr \<Rightarrow> error option \<times> pystr" where
  "write_io enc s out =
     (if list_all enc s then (None, out @ s) else (Some UnicodeEncodeError, out))"

text \<open>\<^verbatim>\<open>print(s)\<close> writes \<open>s\<close>, then the newline.\<close>

definition print_io :: "(nat \<Rightarrow> bool) \<Rightarrow> pystr \<Rightarrow> pystr \<Rightarrow> error option \<times> pystr" where
  "print_io enc s out =
     (case write_io enc s out of
        (Some e, out') \<Rightarrow> (Some e, out')
      | (None, out') \<Rightarrow> write_io enc (codepoints ''\<newline>'') out')"

text \<open>
  \<^verbatim>\<open>MockClient.generate_content\<close> with its three \<^verbatim>\<open>print\<close> calls (lines 44--46) as they
  run: an exception raised by one of them leaves the function before the branch of
  line 48 is reached.
\<close>

definition generate_content_io ::
  "(nat \<Rightarrow> bool) \<Rightarrow> MockClient \<Rightarrow> pystr \<Rightarrow> pystr \<Rightarrow> nat MockConfig \<Rightarrow> pystr \<Rightarrow>
     (error + response) \<times> pystr" where
  "generate_content_io enc self model contents config out =
     (case print_io enc (codepoints ''\<newline>[MOCK API CALL] Model: '' @ model) out of
        (Some e, out1) \<Rightarrow> (Inl e, out1)
      | (None, out1) \<Rightarrow>
     (case print_io enc
             (codepoints ''[MOCK API CALL] Query: '' @ codepoints [CHR 0x27] @ contents @
              codepoints [CHR 0x27]) out1 of
        (Some e, out2) \<Rightarrow> (Inl e, out2)
      | (None, out2) \<Rightarrow>
     (case print_io enc
             (codepoints ''[MOCK API CALL] System Instruction: '' @ codepoints [CHR 0x27] @
              take 50 (system_instruction config) @ codepoints ''...'' @
              codepoints [CHR 0x27]) out2 of
        (Some e, out3) \<Rightarrow> (Inl e, out3)
      | (None, out3) \<Rightarrow>
     (case tools_condition config of
        Inl e \<Rightarrow> (Inl e, out3)
      | Inr b \<Rightarrow> (if b then (Inr grounded_payload, out3)
                 else (Inr creative_payload, out3))))))"

subsection \<open>The module state and the two services\<close>

text \<open>
  The module holds one global, \<^verbatim>\<open>gemini_client\<close>, created when the module is loaded;
  together with standard output it is all the state a call can read or change.
\<close>

record world =
  gemini_client :: MockClient
  stdout :: string

text \<open>
  Loading the module: \<^verbatim>\<open>gemini_client = MockClient(api_key=os.environ.get(...))\<close>,
  where the environment variable may be unset.
\<close>

definition module_init :: "string option \<Rightarrow> world" where
  "module_init api_key =
     (let (c, out) = MockClient_init api_key []
      in \<lparr>gemini_client = c, stdout = out\<rparr>)"

text \<open>\<^verbatim>\<open>generate_chat_response(user_query)\<close> (lines 87--114).\<close>

definition generate_chat_response :: "string \<Rightarrow> world \<Rightarrow> (error + response) \<times> world" where
  "generate_chat_response user_query w =
     (let system_prompt =
            ''You are Flordiee AI, a helpful and professional assistant for the FSRPWL '' @
            ''community. You are friendly and knowledgeable. You MUST use factual, '' @
            ''search-grounded information when possible.'';
          config = \<lparr>system_instruction = system_prompt,
                    tools = Some [\<lparr>name = ''google_search''\<rparr>]\<rparr>;
          (r, out) = generate_content (gemini_client w) ''gemini-2.5-flash'' user_query config
                       (stdout w);
          w' = w\<lparr>stdout := out\<rparr>
      in (case r of
            Inl e \<Rightarrow> (Inl e, w')
          | Inr api_response \<Rightarrow>
              (case getitem api_response ''text'' of
                 Inl e \<Rightarrow> (Inl e, w')
               | Inr t \<Rightarrow>
                   (Inr [''text'' \<mapsto> t,
                         ''sources'' \<mapsto> dict_get api_response ''sources'' (SourceList [])],
                    w'))))"

text \<open>
  \<^verbatim>\<open>generate_rp_scenario(department)\<close> (lines 117--137): the configuration is built
  without tools, so \<^verbatim>\<open>tools\<close> takes its default \<^verbatim>\<open>None\<close>; the result is the value
  under \<^verbatim>\<open>"text"\<close> alone.
\<close>

definition generate_rp_scenario :: "string \<Rightarrow> world \<Rightarrow> (error + pyval) \<times> world" where
  "generate_rp_scenario department w =
     (let system_prompt =
            ''You are a creative director for a realistic, mature, whitelist-only roleplay '' @
            ''community. Your job is to generate engaging, serious, and realistic scenario prompts '' @
            ''for players, suitable for a mature audience.'';
          query = ''Generate a short, realistic roleplay scenario (around 100 words) for the '' @
                  [CHR 0x27] @ department @ [CHR 0x27] @ '' department.'';
          config = \<lparr>system_instruction = system_prompt, tools = None\<rparr>;
          (r, out) = generate_content (gemini_client w) ''gemini-2.5-flash'' query config
                       (stdout w);
          w' = w\<lparr>stdout := out\<rparr>
      in (case r of
            Inl e \<Rightarrow> (Inl e, w')
          | Inr api_response \<Rightarrow>
              (case getitem api_response ''text'' of
                 Inl e \<Rightarrow> (Inl e, w')
               | Inr t \<Rightarrow> (Inr t, w'))))"

subsection \<open>Predicates used to state the properties\<close>

text \<open>
  \<open>first_flag config n\<close>: \<^verbatim>\<open>config.tools\<close> is a non-empty list whose first tool is named
  \<open>n\<close>. \<open>carries_flag config n\<close>: \<^verbatim>\<open>config.tools\<close> is a list holding a tool named \<open>n\<close>
  at some position.
\<close>

definition first_flag :: "'c MockConfig \<Rightarrow> string \<Rightarrow> bool" where
  "first_flag config n = (case tools config of Some (t # ts) \<Rightarrow> name t = n | _ \<Rightarrow> False)"



section \<open>Basic facts\<close>



lemma tools_condition_eq: "tools_condition config = Inr (first_flag config ''google_search'')"
  by (simp add: tools_condition_def truthy_def subscript0_def first_flag_def
           split: option.splits list.splits)

lemma generate_content_fst:
  "fst (generate_content self model contents config out) =
     Inr (if first_flag config ''google_search'' then grounded_payload else creative_payload)"
  by (simp add: generate_content_def tools_condition_eq Let_def)



lemma grounded_payload_sources:
  "grounded_payload ''sources'' = Some (SourceList grounded_sources)"
  by (simp add: grounded_payload_def)







lemma generate_chat_response_fst: "fst (generate_chat_response q w) = Inr grounded_payload"
  by (simp add: generate_chat_response_def Let_def split_beta generate_content_fst
        first_flag_def getitem_def dict_get_def grounded_payload_def)

lemma generate_rp_scenario_fst: "fst (generate_rp_scenario d w) = Inr (Str creative_text)"
  by (simp add: generate_rp_scenario_def Let_def split_beta generate_content_fst
        first_flag_def getitem_def creative_payload_def)

lemma generate_chat_response_client:
  "gemini_client (snd (generate_chat_response q w)) = gemini_client w"
  by (simp add: generate_chat_response_def Let_def split_beta split: sum.splits)

lemma generate_rp_scenario_client:
  "gemini_client (snd (generate_rp_scenario d w)) = gemini_client w"
  by (simp add: generate_rp_scenario_def Let_def split_beta split: sum.splits)

text \<open>Printing to a stream with an encoding.\<close>

lemma enc_ascii: "list_all enc [0..<128] \<Longrightarrow> c < 128 \<Longrightarrow> enc c"
  by (simp add: list_all_iff)

lemma enc_literal:
  "list_all enc [0..<128] \<Longrightarrow> list_all (\<lambda>c. (of_char c :: nat) < 128) s \<Longrightarrow>
   list_all enc (codepoints s)"
  by (induction s) (auto simp: codepoints_def enc_ascii)

lemma print_io_ok:
  "list_all enc [0..<128] \<Longrightarrow> list_all enc s \<Longrightarrow>
   print_io enc s out = (None, out @ s @ codepoints ''\<newline>'')"
  by (simp add: print_io_def write_io_def codepoints_def enc_ascii)

lemma print_io_fail:
  "\<not> list_all enc s \<Longrightarrow> print_io enc s out = (Some UnicodeEncodeError, out)"
  by (simp add: print_io_def write_io_def)

lemma print_io_error: "print_io enc s out = (Some e, out') \<Longrightarrow> e = UnicodeEncodeError"
  by (auto simp: print_io_def write_io_def split: if_splits)

lemma trace_literals:
  assumes "list_all enc [0..<128]"
  shows "list_all enc (codepoints ''\<newline>[MOCK API CALL] Model: '')"
    and "list_all enc (codepoints ''[MOCK API CALL] Query: '')"
    and "list_all enc (codepoints ''[MOCK API CALL] System Instruction: '')"
    and "list_all enc (codepoints ''...'')"
    and "list_all enc (codepoints [CHR 0x27])"
  using assms by (simp_all add: enc_literal)

lemma generate_content_io_error:
  "fst (generate_content_io enc self model contents config out) = Inl e \<Longrightarrow>
   e = UnicodeEncodeError"
  by (auto simp: generate_content_io_def tools_condition_eq
      split: prod.splits option.splits if_splits dest: print_io_error)

lemma generate_content_io_fst:
  assumes "list_all enc [0..<128]" "list_all enc model" "list_all enc contents"
    "list_all enc (take 50 (system_instruction config))"
  shows "fst (generate_content_io enc self model contents config out) =
     Inr (if first_flag config ''google_search'' then grounded_payload else creative_payload)"
  using assms trace_literals [OF assms(1)]
  by (simp add: generate_content_io_def print_io_ok tools_condition_eq)

lemma generate_content_io_returns_iff:
  assumes "list_all enc [0..<128]"
  shows "(\<exists>p out'. generate_content_io enc self model contents config out = (Inr p, out')) \<longleftrightarrow>
     list_all enc model \<and> list_all enc contents \<and>
     list_all enc (take 50 (system_instruction config))"
proof -
  note l = trace_literals [OF assms]
  show ?thesis
  proof (cases "list_all enc model")
    case False
    then show ?thesis
      by (simp add: generate_content_io_def print_io_fail)
  next
    case m: True
    show ?thesis
    proof (cases "list_all enc contents")
      case False
      then show ?thesis
        using m l assms by (simp add: generate_content_io_def print_io_ok print_io_fail)
    next
      case c: True
      show ?thesis
      proof (cases "list_all enc (take 50 (system_instruction config))")
        case False
        then show ?thesis
          using m c l assms by (simp add: generate_content_io_def print_io_ok print_io_fail)
      next
        case True
        then show ?thesis
          using m c l assms
          by (simp add: generate_content_io_def print_io_ok tools_condition_eq)
      qed
    qed
  qed
qed

text \<open>
  Where every trace line can be encoded, \<open>generate_content_io\<close> returns what
  \<open>generate_content\<close> returns and prints what it prints.
\<close>

lemma generate_content_io_refines:
  assumes "list_all enc [0..<128]" "list_all enc (codepoints model)"
    "list_all enc (codepoints contents)"
    "list_all enc (codepoints (take 50 (system_instruction config)))"
  shows "generate_content_io enc self (codepoints model) (codepoints contents)
      \<lparr>system_instruction = codepoints (system_instruction config), tools = tools config\<rparr>
      (codepoints out) =
     (fst (generate_content self model contents config out),
      codepoints (snd (generate_content self model contents config out)))"
proof -
  note l = trace_literals [OF assms(1)]
  have t: "first_flag \<lparr>system_instruction = codepoints (system_instruction config),
        tools = tools config\<rparr> ''google_search'' = first_flag config ''google_search''"
    by (simp add: first_flag_def)
  have k: "take 50 (codepoints (system_instruction config)) =
      codepoints (take 50 (system_instruction config))"
    by (simp add: codepoints_def take_map)
  show ?thesis
    using assms l
    by (simp add: generate_content_io_def generate_content_def print_io_ok print_line_def t k
          Let_def tools_condition_eq)
      (simp add: codepoints_def)
qed

lemma utf_8_codec_ascii: "list_all utf_8_codec [0..<128]"
  by (simp add: list_all_iff utf_8_codec_def)

section \<open>The responder: \<^verbatim>\<open>generate_content\<close>\<close>








text \<open>
  C9, as the code has it. \<^verbatim>\<open>generate_content\<close> returns a payload, and raises nothing,
  on the inputs that standard output can encode: with an encoding that holds ASCII, it
  returns exactly when the model, the prompt and the first 50 characters of the system
  instruction can be encoded, whatever \<^verbatim>\<open>config.tools\<close> is (\<^verbatim>\<open>None\<close> and \<^verbatim>\<open>[]\<close>
  included, which receive the creative payload). The only exception it ever raises is
  the \<^verbatim>\<open>UnicodeEncodeError\<close> of a trace \<^verbatim>\<open>print\<close>: the branch condition never fails,
  because the subscript \<^verbatim>\<open>config.tools[0]\<close> is reached only when \<^verbatim>\<open>config.tools\<close> is
  true, where it succeeds.
\<close>

theorem generate_content_io_total:
  "(list_all enc [0..<128] \<longrightarrow>
      ((\<exists>p out'. generate_content_io enc self model contents config out = (Inr p, out')) \<longleftrightarrow>
       list_all enc model \<and> list_all enc contents \<and>
       list_all enc (take 50 (system_instruction config)))) \<and>
   (\<forall>e. fst (generate_content_io enc self model contents config out) = Inl e \<longrightarrow>
      e = UnicodeEncodeError) \<and>
   (\<exists>b. tools_condition config = Inr b) \<and>
   (truthy (tools config) \<longrightarrow> (\<exists>t. subscript0 (tools config) = Inr t)) \<and>
   (list_all enc [0..<128] \<and> list_all enc model \<and> list_all enc contents \<and>
    list_all enc (take 50 (system_instruction config)) \<and>
    (tools config = None \<or> tools config = Some []) \<longrightarrow>
      \<not> truthy (tools config) \<and>
      fst (generate_content_io enc self model contents config out) = Inr creative_payload)"
proof -
  have "list_all enc [0..<128] \<longrightarrow>
      ((\<exists>p out'. generate_content_io enc self model contents config out = (Inr p, out')) \<longleftrightarrow>
       list_all enc model \<and> list_all enc contents \<and>
       list_all enc (take 50 (system_instruction config)))"
    using generate_content_io_returns_iff by blast
  moreover have
    "\<forall>e. fst (generate_content_io enc self model contents config out) = Inl e \<longrightarrow>
       e = UnicodeEncodeError"
    using generate_content_io_error by blast
  moreover have "\<exists>b. tools_condition config = Inr b"
    by (simp add: tools_condition_eq)
  moreover have "truthy (tools config) \<longrightarrow> (\<exists>t. subscript0 (tools config) = Inr t)"
    by (simp add: truthy_def subscript0_def split: option.splits list.splits)
  moreover have
    "list_all enc [0..<128] \<and> list_all enc model \<and> list_all enc contents \<and>
     list_all enc (take 50 (system_instruction config)) \<and>
     (tools config = None \<or> tools config = Some []) \<longrightarrow>
       \<not> truthy (tools config) \<and>
       fst (generate_content_io enc self model contents config out) = Inr creative_payload"
    by (auto simp: truthy_def generate_content_io_fst first_flag_def)
  ultimately show ?thesis
    by blast
qed

theorem generate_content_io_total_witness:
  "list_all utf_8_codec [0..<128] \<and>
   list_all utf_8_codec (codepoints ''gemini-2.5-flash'') \<and>
   list_all utf_8_codec [99, 97, 102, 233] \<and>
   list_all utf_8_codec (take 50 (codepoints ''Be creative.'')) \<and>
   (\<exists>p out'. generate_content_io utf_8_codec MockClient (codepoints ''gemini-2.5-flash'')
      [99, 97, 102, 233] \<lparr>system_instruction = codepoints ''Be creative.'', tools = None\<rparr> []
      = (Inr p, out')) \<and>
   fst (generate_content_io utf_8_codec MockClient (codepoints ''gemini-2.5-flash'')
      [99, 97, 102, 233] \<lparr>system_instruction = codepoints ''Be creative.'', tools = None\<rparr> [])
     = Inr creative_payload \<and>
   fst (generate_content_io utf_8_codec MockClient (codepoints ''gemini-2.5-flash'')
      [99, 97, 102, 233] \<lparr>system_instruction = codepoints ''Be creative.'', tools = Some []\<rparr> [])
     = Inr creative_payload \<and>
   truthy (Some [\<lparr>name = ''google_search''\<rparr>]) \<and>
   subscript0 (Some [\<lparr>name = ''google_search''\<rparr>]) = Inr \<lparr>name = ''google_search''\<rparr>"
proof -
  have h: "list_all utf_8_codec [0..<128]"
    "list_all utf_8_codec (codepoints ''gemini-2.5-flash'')"
    "list_all utf_8_codec [99, 97, 102, 233]"
    "list_all utf_8_codec (take 50 (codepoints ''Be creative.''))"
    by (simp_all add: utf_8_codec_ascii) (simp_all add: utf_8_codec_def codepoints_def)
  show ?thesis
    using h
      generate_content_io_total [of utf_8_codec MockClient "codepoints ''gemini-2.5-flash''"
        "[99, 97, 102, 233]" "\<lparr>system_instruction = codepoints ''Be creative.'', tools = None\<rparr>"
        "[]"]
      generate_content_io_total [of utf_8_codec MockClient "codepoints ''gemini-2.5-flash''"
        "[99, 97, 102, 233]"
        "\<lparr>system_instruction = codepoints ''Be creative.'', tools = Some []\<rparr>" "[]"]
    by (simp add: truthy_def subscript0_def)
qed

text \<open>
  The claim as the specification words it fails: a prompt with a lone surrogate cannot
  be printed to a UTF-8 stream, nor one with an accented letter to an ASCII stream, and
  the call raises from the second trace line instead of returning a payload.
\<close>

theorem generate_content_unencodable_counterexample:
  "fst (generate_content_io utf_8_codec MockClient (codepoints ''gemini-2.5-flash'')
      [97, 0xD800, 98]
      \<lparr>system_instruction = codepoints ''Be helpful.'',
       tools = Some [\<lparr>name = ''google_search''\<rparr>]\<rparr> [])
     = Inl UnicodeEncodeError \<and>
   fst (generate_content_io ascii_codec MockClient (codepoints ''gemini-2.5-flash'')
      [99, 97, 102, 233]
      \<lparr>system_instruction = codepoints ''Be creative.'', tools = None\<rparr> [])
     = Inl UnicodeEncodeError"
  by (simp add: generate_content_io_def print_io_def write_io_def codepoints_def
        utf_8_codec_def ascii_codec_def)



section \<open>The services\<close>

text \<open>
  C2. For the query \<^verbatim>\<open>"What are the core departments in FSRPWL?"\<close>,
  \<^verbatim>\<open>generate_chat_response\<close> returns a dictionary whose \<^verbatim>\<open>"sources"\<close> entry is exactly the
  list of the two fixed citations, the community guidelines first and the wiki second.
\<close>

theorem generate_chat_response_demo_sources:
  "\<exists>p. fst (generate_chat_response ''What are the core departments in FSRPWL?'' w) = Inr p \<and>
     p ''sources'' =
       Some (SourceList
         [[''title'' \<mapsto> ''FSRPWL Community Guidelines'', ''uri'' \<mapsto> ''https://example.com/fsrpwl-rules''],
          [''title'' \<mapsto> ''Roblox ER:LC Wiki'', ''uri'' \<mapsto> ''https://example.com/erlc-wiki'']])"
  by (simp add: generate_chat_response_fst grounded_payload_sources grounded_sources_def)


text \<open>
  C5. For the department \<^verbatim>\<open>"Sheriff's Office"\<close>, \<^verbatim>\<open>generate_rp_scenario\<close> returns a string
  that starts with \<^verbatim>\<open>"**Scenario: Armed Robbery in Progress.**"\<close>.
\<close>

theorem generate_rp_scenario_demo_prefix:
  "\<exists>s. fst (generate_rp_scenario ''Sheriff's Office'' w) = Inr (Str s) \<and>
     prefix ''**Scenario: Armed Robbery in Progress.**'' s"
  by (simp add: generate_rp_scenario_fst creative_text_def)


text \<open>
  C8. Both services are deterministic functions of their argument. The value returned
  does not depend on the state a call starts in, so a second call with the same
  argument, made in the state the first call left, returns an equal value; and a call
  leaves the module's client as it found it (standard output is all it changes).
\<close>

theorem services_deterministic:
  "fst (generate_chat_response user_query (snd (generate_chat_response user_query w))) =
     fst (generate_chat_response user_query w) \<and>
   fst (generate_rp_scenario department (snd (generate_rp_scenario department w))) =
     fst (generate_rp_scenario department w) \<and>
   fst (generate_chat_response user_query w') = fst (generate_chat_response user_query w) \<and>
   fst (generate_rp_scenario department w') = fst (generate_rp_scenario department w) \<and>
   gemini_client (snd (generate_chat_response user_query w)) = gemini_client w \<and>
   gemini_client (snd (generate_rp_scenario department w)) = gemini_client w"
  by (simp add: generate_chat_response_fst generate_rp_scenario_fst
        generate_chat_response_client generate_rp_scenario_client)

end
